theory Spec2Isabelle
  imports Complex_Main
begin

section \<open>Data model\<close>

text \<open>
  The matching scripts \<^verbatim>\<open>fuzzy_match.py\<close>, \<^verbatim>\<open>fuzzy_match2.py\<close> and
  \<^verbatim>\<open>fuzzymatch_3.py\<close> link roster athletes to World Athletics records.  Scores are
  Python numbers (the integer name score of the similarity backend, and floats once it
  is multiplied by 0.7, 0.3 or 0.9); they are modelled as exact rationals, so a
  statement about a score is a statement about the value the formula denotes.

  A birth date is either Python's \<^verbatim>\<open>None\<close> or a string \<^verbatim>\<open>'%Y-%m-%d'\<close>; it is a
  \<^typ>\<open>string option\<close>.  The tests \<^verbatim>\<open>if athlete_birth_date and wa_birth_date\<close> are
  Python truth tests: \<^verbatim>\<open>None\<close> and the empty string are false, every other string is
  true.
\<close>

type_synonym score = rat

type_synonym 'v py_dict = "(string \<times> 'v) list"

datatype py_error = KeyError

datatype confidence = High | Medium | Low

text \<open>A row of the sheet \<^verbatim>\<open>WorldAthletics_codes\<close>, its birth date already formatted.\<close>

record wa_row =
  row_Name :: string
  row_ID :: int
  row_birthDate :: "string option"
  row_urlSlug :: string
  row_disciplines :: string

text \<open>A value of \<^verbatim>\<open>wa_athletes_dict\<close>.\<close>

record wa_data =
  ID :: int
  birthDate :: "string option"
  urlSlug :: string
  disciplines :: string

text \<open>The dictionary a strategy returns as its best match.\<close>

record match =
  Matched_Name :: string
  Matched_ID :: int
  Matched_Birth_Date :: "string option"
  Name_Match_Score :: score
  Birth_Date_Match_Score :: score
  Combined_Match_Score :: score

definition truthy :: "string option \<Rightarrow> bool" where
  "truthy v = (case v of None \<Rightarrow> False | Some s \<Rightarrow> s \<noteq> [])"

section \<open>The reference pool\<close>

text \<open>
  A Python dictionary keeps its keys in the order of their first insertion; an
  assignment to a key that is present replaces the value where it stands.
\<close>

fun dict_set :: "string \<Rightarrow> 'v \<Rightarrow> 'v py_dict \<Rightarrow> 'v py_dict" where
  "dict_set k v [] = [(k, v)]"
| "dict_set k v ((k', v') # rest) =
     (if k' = k then (k, v) # rest else (k', v') # dict_set k v rest)"

definition dict_get :: "'v py_dict \<Rightarrow> string \<Rightarrow> py_error + 'v" where
  "dict_get d k = (case map_of d k of None \<Rightarrow> Inl KeyError | Some v \<Rightarrow> Inr v)"

text \<open>
  The loop \<^verbatim>\<open>for _, row in wa_codes_df.iterrows()\<close> of all three scripts: it fills
  \<^verbatim>\<open>wa_athletes_dict\<close> and appends to \<^verbatim>\<open>wa_names_list\<close>.
\<close>

fun prepare_wa ::
  "wa_row list \<Rightarrow> wa_data py_dict \<times> string list \<Rightarrow> wa_data py_dict \<times> string list" where
  "prepare_wa [] st = st"
| "prepare_wa (row # rows) (d, names) =
     prepare_wa rows
       (dict_set (row_Name row)
          \<lparr>ID = row_ID row, birthDate = row_birthDate row,
           urlSlug = row_urlSlug row, disciplines = row_disciplines row\<rparr> d,
        names @ [row_Name row])"

definition wa_athletes_dict :: "wa_row list \<Rightarrow> wa_data py_dict" where
  "wa_athletes_dict rows = fst (prepare_wa rows ([], []))"

definition wa_names_list :: "wa_row list \<Rightarrow> string list" where
  "wa_names_list rows = snd (prepare_wa rows ([], []))"

text \<open>The record of a name that stands last in the registry.\<close>

definition last_record :: "string \<Rightarrow> wa_row list \<Rightarrow> wa_row option" where
  "last_record n rows = find (\<lambda>row. row_Name row = n) (rev rows)"

section \<open>Candidate generation\<close>

text \<open>
  Modelled from the spec: \<^verbatim>\<open>process.extract(query, choices, limit=5, scorer=...)\<close> is the
  similarity library's function, not code of the scripts.  Section 4.2 of the
  specification gives its contract: the top five choices, ordered by descending name
  score, ties in the order of the pool.  The scorer itself (\<^verbatim>\<open>fuzz.token_sort_ratio\<close>) is
  a parameter of every definition below.
\<close>

definition process_extract :: "(string \<Rightarrow> string \<Rightarrow> score) \<Rightarrow> string \<Rightarrow> string list \<Rightarrow> (string \<times> score) list" where
  "process_extract scorer query choices =
     take 5 (sort_key (\<lambda>(c, s). - s) (map (\<lambda>c. (c, scorer query c)) choices))"

text \<open>
  A backend for evaluating the definitions on concrete inputs: 100 for equal strings and
  0 otherwise.  It is used only at pairs of names that are equal or share no character,
  where \<^verbatim>\<open>token_sort_ratio\<close> gives the same two values.
\<close>

definition exact_ratio :: "string \<Rightarrow> string \<Rightarrow> score" where
  "exact_ratio a b = (if a = b then 100 else 0)"

section \<open>Confidence classification\<close>

text \<open>
  The module-level code of \<^verbatim>\<open>fuzzy_match.py\<close> (lines 139 to 152) and
  \<^verbatim>\<open>fuzzy_match2.py\<close> (lines 188 to 202): the band and the flag
  \<^verbatim>\<open>WA_Recommended\<close> of a matched row, and the column \<^verbatim>\<open>WA_Recommended_ID\<close>, which
  copies \<^verbatim>\<open>WA_Matched_ID\<close> where the score is at least 90.
\<close>

definition assign_confidence :: "score \<Rightarrow> confidence \<times> bool" where
  "assign_confidence s =
     (if s \<ge> 90 then (High, True)
      else if s \<ge> 70 then (Medium, True)
      else (Low, False))"

definition recommended_id :: "score \<Rightarrow> int \<Rightarrow> int option" where
  "recommended_id s matched_id = (if s \<ge> 90 then Some matched_id else None)"

section \<open>The two strategies\<close>

text \<open>
  \<^verbatim>\<open>find_best_match_name_first\<close> (\<^verbatim>\<open>fuzzy_match2.py\<close>, lines 43 to 70).  The body of
  its loop builds the candidate's dictionary; \<open>name_first_candidate\<close> is that
  dictionary, whose field \<^verbatim>\<open>Combined_Match_Score\<close> is the local \<^verbatim>\<open>combined_score\<close>.
  \<^verbatim>\<open>wa_dict[match_name]\<close> raises \<^verbatim>\<open>KeyError\<close> on a name that is not a key.
\<close>

definition name_first_candidate :: "string option \<Rightarrow> wa_data \<Rightarrow> string \<Rightarrow> score \<Rightarrow> match" where
  "name_first_candidate athlete_birth_date wa_data match_name name_score =
     (let wa_birth_date = birthDate wa_data;
          birth_date_score =
            (if truthy athlete_birth_date \<and> truthy wa_birth_date
             then (if athlete_birth_date = wa_birth_date then 100 else 0)
             else 0);
          combined_score =
            (if truthy athlete_birth_date \<and> truthy wa_birth_date
             then 7 / 10 * name_score + 3 / 10 * birth_date_score
             else name_score)
      in \<lparr>Matched_Name = match_name, Matched_ID = ID wa_data,
          Matched_Birth_Date = birthDate wa_data, Name_Match_Score = name_score,
          Birth_Date_Match_Score = birth_date_score,
          Combined_Match_Score = combined_score\<rparr>)"

fun name_first_loop ::
  "string option \<Rightarrow> wa_data py_dict \<Rightarrow> (string \<times> score) list \<Rightarrow> score \<times> match option
     \<Rightarrow> py_error + (score \<times> match option)" where
  "name_first_loop athlete_birth_date wa_dict [] st = Inr st"
| "name_first_loop athlete_birth_date wa_dict ((match_name, name_score) # matches)
       (best_combined_score, best_match) =
     (case dict_get wa_dict match_name of
        Inl e \<Rightarrow> Inl e
      | Inr wa_data \<Rightarrow>
          (let c = name_first_candidate athlete_birth_date wa_data match_name name_score
           in if Combined_Match_Score c > best_combined_score
              then name_first_loop athlete_birth_date wa_dict matches
                     (Combined_Match_Score c, Some c)
              else name_first_loop athlete_birth_date wa_dict matches
                     (best_combined_score, best_match)))"

definition find_best_match_name_first ::
  "(string \<Rightarrow> string \<Rightarrow> score) \<Rightarrow> string \<Rightarrow> string option \<Rightarrow> string list \<Rightarrow> wa_data py_dict
     \<Rightarrow> py_error + match option" where
  "find_best_match_name_first scorer athlete_name athlete_birth_date wa_names wa_dict =
     (case name_first_loop athlete_birth_date wa_dict
             (process_extract scorer athlete_name wa_names) (0, None) of
        Inl e \<Rightarrow> Inl e
      | Inr (best_combined_score, best_match) \<Rightarrow> Inr best_match)"

text \<open>
  \<^verbatim>\<open>find_best_match\<close> (\<^verbatim>\<open>fuzzy_match.py\<close>, lines 49 to 86): the same loop, which
  also keeps \<^verbatim>\<open>best_score\<close>.
\<close>

fun find_best_match_loop ::
  "string option \<Rightarrow> wa_data py_dict \<Rightarrow> (string \<times> score) list
     \<Rightarrow> match option \<times> score \<times> score \<Rightarrow> py_error + (match option \<times> score \<times> score)" where
  "find_best_match_loop athlete_birth_date wa_dict [] st = Inr st"
| "find_best_match_loop athlete_birth_date wa_dict ((match_name, name_score) # matches)
       (best_match, best_score, best_combined_score) =
     (case dict_get wa_dict match_name of
        Inl e \<Rightarrow> Inl e
      | Inr wa_data \<Rightarrow>
          (let c = name_first_candidate athlete_birth_date wa_data match_name name_score
           in if Combined_Match_Score c > best_combined_score
              then find_best_match_loop athlete_birth_date wa_dict matches
                     (Some c, name_score, Combined_Match_Score c)
              else find_best_match_loop athlete_birth_date wa_dict matches
                     (best_match, best_score, best_combined_score)))"

definition find_best_match ::
  "(string \<Rightarrow> string \<Rightarrow> score) \<Rightarrow> string \<Rightarrow> string option \<Rightarrow> string list \<Rightarrow> wa_data py_dict
     \<Rightarrow> py_error + match option" where
  "find_best_match scorer athlete_name athlete_birth_date wa_names wa_dict =
     (case find_best_match_loop athlete_birth_date wa_dict
             (process_extract scorer athlete_name wa_names) (None, 0, 0) of
        Inl e \<Rightarrow> Inl e
      | Inr (best_match, best_score, best_combined_score) \<Rightarrow> Inr best_match)"

text \<open>
  \<^verbatim>\<open>find_best_match_birth_first\<close> (\<^verbatim>\<open>fuzzy_match2.py\<close>, lines 73 to 102).  The
  dictionary comprehension keeps the items of \<^verbatim>\<open>wa_dict\<close> whose birth date equals the
  athlete's, in their order; an empty \<^verbatim>\<open>candidates\<close> returns \<^verbatim>\<open>None\<close> at once.
\<close>

fun birth_first_loop ::
  "wa_data py_dict \<Rightarrow> (string \<times> score) list \<Rightarrow> score \<times> match option
     \<Rightarrow> py_error + (score \<times> match option)" where
  "birth_first_loop candidates [] st = Inr st"
| "birth_first_loop candidates ((match_name, name_score) # matches) (best_score, best_match) =
     (let combined_score = 7 / 10 * 100 + 3 / 10 * name_score
      in if combined_score > best_score
         then (case dict_get candidates match_name of
                 Inl e \<Rightarrow> Inl e
               | Inr data \<Rightarrow>
                   birth_first_loop candidates matches
                     (combined_score,
                      Some \<lparr>Matched_Name = match_name, Matched_ID = ID data,
                            Matched_Birth_Date = birthDate data,
                            Name_Match_Score = name_score,
                            Birth_Date_Match_Score = 100,
                            Combined_Match_Score = combined_score\<rparr>))
         else birth_first_loop candidates matches (best_score, best_match))"

definition find_best_match_birth_first ::
  "(string \<Rightarrow> string \<Rightarrow> score) \<Rightarrow> string option \<Rightarrow> string \<Rightarrow> wa_data py_dict
     \<Rightarrow> py_error + match option" where
  "find_best_match_birth_first scorer athlete_birth_date athlete_name wa_dict =
     (let candidates =
            (if truthy athlete_birth_date
             then filter (\<lambda>(name, data). birthDate data = athlete_birth_date) wa_dict
             else wa_dict)
      in if candidates = [] then Inr None
         else (let candidate_names = map fst candidates;
                   matches = process_extract scorer athlete_name candidate_names
               in case birth_first_loop candidates matches (0, None) of
                    Inl e \<Rightarrow> Inl e
                  | Inr (best_score, best_match) \<Rightarrow> Inr best_match))"

text \<open>
  \<^verbatim>\<open>find_best_match_birth_first_fw\<close> (\<^verbatim>\<open>fuzzymatch_3.py\<close>, lines 96 to 117) writes the
  filter as one conditional expression and runs the same loop.
\<close>

definition find_best_match_birth_first_fw ::
  "(string \<Rightarrow> string \<Rightarrow> score) \<Rightarrow> string option \<Rightarrow> string \<Rightarrow> wa_data py_dict
     \<Rightarrow> py_error + match option" where
  "find_best_match_birth_first_fw scorer athlete_birth_date athlete_name wa_dict =
     (let candidates =
            (if truthy athlete_birth_date
             then filter (\<lambda>(name, data). birthDate data = athlete_birth_date) wa_dict
             else wa_dict)
      in if candidates = [] then Inr None
         else (case birth_first_loop candidates
                      (process_extract scorer athlete_name (map fst candidates)) (0, None) of
                 Inl e \<Rightarrow> Inl e
               | Inr (best_score, best_match) \<Rightarrow> Inr best_match))"

section \<open>The matching loop\<close>

text \<open>A roster row without \<^verbatim>\<open>WA_no\<close>, with the columns the scripts add to it.\<close>

record athlete =
  First_name :: string
  Last_name :: string
  Birth_date_str :: "string option"

definition Full_Name :: "athlete \<Rightarrow> string" where
  "Full_Name a = First_name a @ '' '' @ Last_name a"

definition Full_Name_Reversed :: "athlete \<Rightarrow> string" where
  "Full_Name_Reversed a = Last_name a @ '' '' @ First_name a"

text \<open>
  The choice between the two name formats (\<^verbatim>\<open>fuzzy_match2.py\<close>, lines 112 to 115 and
  120 to 123): the first format wins a tie; \<^verbatim>\<open>match1a or match1b\<close> is the first one
  that is not \<^verbatim>\<open>None\<close>.
\<close>

definition better_match :: "match option \<Rightarrow> match option \<Rightarrow> match option" where
  "better_match match_a match_b =
     (case (match_a, match_b) of
        (Some a, Some b) \<Rightarrow>
          (if Combined_Match_Score a \<ge> Combined_Match_Score b then Some a else Some b)
      | (Some a, None) \<Rightarrow> Some a
      | (None, mb) \<Rightarrow> mb)"

text \<open>
  The combination of the two approaches (\<^verbatim>\<open>fuzzy_match2.py\<close>, lines 126 to 141, and
  \<^verbatim>\<open>fuzzymatch_3.py\<close>, lines 166 to 179): the pair \<^verbatim>\<open>(final_match, overall_score)\<close>.
\<close>

definition combine_results :: "match option \<Rightarrow> match option \<Rightarrow> match option \<times> score option" where
  "combine_results best_match1 best_match2 =
     (case (best_match1, best_match2) of
        (Some m1, Some m2) \<Rightarrow>
          (if Matched_ID m1 = Matched_ID m2
           then (Some m1, Some ((Combined_Match_Score m1 + Combined_Match_Score m2) / 2))
           else if Combined_Match_Score m1 \<ge> Combined_Match_Score m2
           then (Some m1, Some (Combined_Match_Score m1 * (9 / 10)))
           else (Some m2, Some (Combined_Match_Score m2 * (9 / 10))))
      | (Some m1, None) \<Rightarrow> (Some m1, Some (Combined_Match_Score m1))
      | (None, Some m2) \<Rightarrow> (Some m2, Some (Combined_Match_Score m2))
      | (None, None) \<Rightarrow> (None, None))"

definition py_bind :: "py_error + 'a \<Rightarrow> ('a \<Rightarrow> py_error + 'b) \<Rightarrow> py_error + 'b" where
  "py_bind r f = (case r of Inl e \<Rightarrow> Inl e | Inr v \<Rightarrow> f v)"

text \<open>
  One turn of the matching loop of \<^verbatim>\<open>fuzzy_match2.py\<close> (lines 108 to 141): the four
  calls, the two choices and the combination.
\<close>

definition match_athlete ::
  "(string \<Rightarrow> string \<Rightarrow> score) \<Rightarrow> athlete \<Rightarrow> string list \<Rightarrow> wa_data py_dict
     \<Rightarrow> py_error + (match option \<times> score option)" where
  "match_athlete scorer a wa_names wa_dict =
     py_bind (find_best_match_name_first scorer (Full_Name a) (Birth_date_str a) wa_names wa_dict)
       (\<lambda>match1a.
     py_bind (find_best_match_name_first scorer (Full_Name_Reversed a) (Birth_date_str a)
                wa_names wa_dict)
       (\<lambda>match1b.
     py_bind (find_best_match_birth_first scorer (Birth_date_str a) (Full_Name a) wa_dict)
       (\<lambda>match2a.
     py_bind (find_best_match_birth_first scorer (Birth_date_str a) (Full_Name_Reversed a)
                wa_dict)
       (\<lambda>match2b.
          Inr (combine_results (better_match match1a match1b)
                 (better_match match2a match2b))))))"

text \<open>
  The columns written for one athlete (\<^verbatim>\<open>fuzzy_match2.py\<close>, lines 170 to 202).  A row
  without a final match is not in \<^verbatim>\<open>results\<close> and keeps the initial values.
\<close>

record wa_columns =
  WA_Matched_Name :: "string option"
  WA_Matched_ID :: "int option"
  WA_Match_Score :: "score option"
  WA_Match_Confidence :: "confidence option"
  WA_Recommended :: bool
  WA_Recommended_ID :: "int option"

definition update_columns :: "match option \<times> score option \<Rightarrow> wa_columns" where
  "update_columns r =
     (case r of
        (None, overall_score) \<Rightarrow>
          \<lparr>WA_Matched_Name = None, WA_Matched_ID = None, WA_Match_Score = None,
           WA_Match_Confidence = None, WA_Recommended = False, WA_Recommended_ID = None\<rparr>
      | (Some final_match, None) \<Rightarrow>
          \<lparr>WA_Matched_Name = Some (Matched_Name final_match),
           WA_Matched_ID = Some (Matched_ID final_match), WA_Match_Score = None,
           WA_Match_Confidence = None, WA_Recommended = False, WA_Recommended_ID = None\<rparr>
      | (Some final_match, Some overall_score) \<Rightarrow>
          \<lparr>WA_Matched_Name = Some (Matched_Name final_match),
           WA_Matched_ID = Some (Matched_ID final_match),
           WA_Match_Score = Some overall_score,
           WA_Match_Confidence = Some (fst (assign_confidence overall_score)),
           WA_Recommended = snd (assign_confidence overall_score),
           WA_Recommended_ID = recommended_id overall_score (Matched_ID final_match)\<rparr>)"

section \<open>Aggregation over two backends\<close>

text \<open>
  \<^verbatim>\<open>avg_score\<close> (\<^verbatim>\<open>fuzzymatch_3.py\<close>, lines 233 to 239): the mean of the overall
  scores that are not null; \<^verbatim>\<open>nan\<close> is \<open>None\<close>.
\<close>

definition avg_score :: "score option \<Rightarrow> score option \<Rightarrow> score option" where
  "avg_score FW_Overall_Score RF_Overall_Score =
     (let scores = (case FW_Overall_Score of None \<Rightarrow> [] | Some s \<Rightarrow> [s]) @
                   (case RF_Overall_Score of None \<Rightarrow> [] | Some s \<Rightarrow> [s])
      in if scores \<noteq> [] then Some (sum_list scores / of_nat (length scores)) else None)"

text \<open>
  The rule of the specification's Consensus Aggregator (section 4.5) for two results
  that are both present, in the specification's words: the average when the ids agree,
  the larger score times 0.9 when they differ.
\<close>

definition spec_consensus_rule :: "int \<Rightarrow> score \<Rightarrow> int \<Rightarrow> score \<Rightarrow> score" where
  "spec_consensus_rule id1 score1 id2 score2 =
     (if id1 = id2 then (score1 + score2) / 2 else max score1 score2 * (9 / 10))"

section \<open>Classification\<close>

text \<open>
  C6.  Every final score falls in exactly one band: High from 90, Medium from 70 up to
  but excluding 90, Low below 70.  The flag \<^verbatim>\<open>WA_Recommended\<close> is set exactly from 70,
  the column \<^verbatim>\<open>WA_Recommended_ID\<close> is filled (with the matched id) exactly from 90.
\<close>

theorem confidence_bands:
  "(fst (assign_confidence s) = High) = (90 \<le> s) \<and>
   (fst (assign_confidence s) = Medium) = (70 \<le> s \<and> s < 90) \<and>
   (fst (assign_confidence s) = Low) = (s < 70) \<and>
   snd (assign_confidence s) = (70 \<le> s) \<and>
   (recommended_id s i = Some i) = (90 \<le> s) \<and>
   (recommended_id s i = None) = (s < 90)"
  by (auto simp: assign_confidence_def recommended_id_def)

end
